theory Spec2Isabelle
  imports Complex_Main "HOL-Library.Sublist"
begin

section \<open>Numbers\<close>

text \<open>
  The program computes on JavaScript numbers.  Finite values are modelled as exact
  rationals; the only operation of the program that can leave the finite numbers is the
  unguarded division in \<open>breakEvenCustomers\<close>, whose result is therefore a \<open>jsnum\<close>:
  a finite value, one of the two infinities, or NaN.  Rounding of binary floating point is
  not part of the model.
\<close>

datatype jsnum = Fin rat | PosInf | NegInf | NaN

text \<open>\<^verbatim>\<open>a / b\<close> on finite operands: a zero divisor gives an infinity or NaN, no exception.\<close>

definition js_div :: "rat \<Rightarrow> rat \<Rightarrow> jsnum" where
  "js_div a b =
     (if b \<noteq> 0 then Fin (a / b)
      else if 0 < a then PosInf
      else if a < 0 then NegInf
      else NaN)"

text \<open>\<^verbatim>\<open>Math.ceil\<close>: the infinities and NaN pass through unchanged.\<close>

fun js_ceil :: "jsnum \<Rightarrow> jsnum" where
  "js_ceil (Fin q) = Fin (of_int \<lceil>q\<rceil>)"
| "js_ceil PosInf = PosInf"
| "js_ceil NegInf = NegInf"
| "js_ceil NaN = NaN"

text \<open>\<^verbatim>\<open>x > r\<close> and \<^verbatim>\<open>x >= r\<close> against a finite \<open>r\<close>: every comparison with NaN is false.\<close>

fun js_gt :: "jsnum \<Rightarrow> rat \<Rightarrow> bool" where
  "js_gt (Fin q) r = (r < q)"
| "js_gt PosInf r = True"
| "js_gt NegInf r = False"
| "js_gt NaN r = False"

fun js_ge :: "jsnum \<Rightarrow> rat \<Rightarrow> bool" where
  "js_ge (Fin q) r = (r \<le> q)"
| "js_ge PosInf r = True"
| "js_ge NegInf r = False"
| "js_ge NaN r = False"

text \<open>Decimal rendering of a non-negative integer, as a template literal prints it.\<close>

definition digit_char :: "nat \<Rightarrow> char" where
  "digit_char d = char_of (48 + d)"

fun string_of_nat :: "nat \<Rightarrow> string" where
  "string_of_nat n =
     (if n < 10 then [digit_char n]
      else string_of_nat (n div 10) @ [digit_char (n mod 10)])"

declare string_of_nat.simps [simp del]

section \<open>Metrics Engine (App.tsx)\<close>

text \<open>The component state the derived values are computed from.\<close>

record params =
  employees :: rat
  marketingBudget :: rat
  productPrice :: rat
  currentCash :: rat
  baseCustomerCount :: rat
  fixedMonthlyCosts :: rat

definition monthlySalaryCost :: "params \<Rightarrow> rat" where
  "monthlySalaryCost p = employees p * 60000"

definition totalMonthlyBurn :: "params \<Rightarrow> rat" where
  "totalMonthlyBurn p = monthlySalaryCost p + marketingBudget p + fixedMonthlyCosts p"

definition monthlyRevenue :: "params \<Rightarrow> rat" where
  "monthlyRevenue p = baseCustomerCount p * productPrice p"

definition netCashFlow :: "params \<Rightarrow> rat" where
  "netCashFlow p = monthlyRevenue p - totalMonthlyBurn p"

definition runwayMonths :: "params \<Rightarrow> rat" where
  "runwayMonths p =
     (if totalMonthlyBurn p > 0 then currentCash p / totalMonthlyBurn p else 999)"

definition breakEvenCustomers :: "params \<Rightarrow> jsnum" where
  "breakEvenCustomers p = js_ceil (js_div (totalMonthlyBurn p) (productPrice p))"

text \<open>The initial state of the component, which is also the example of the specification.\<close>

definition initial_params :: params where
  "initial_params =
     \<lparr>employees = 5, marketingBudget = 30000, productPrice = 150,
      currentCash = 800000, baseCustomerCount = 100, fixedMonthlyCosts = 20000\<rparr>"

subsection \<open>How the component state changes\<close>

text \<open>
  Modelled from the spec: the \<^verbatim>\<open>Slider\<close> component (\<^verbatim>\<open>./components/ui/slider\<close>) is not
  among the sources.  The specification says that the inputs are pre-clamped by the range
  constraints of the UI; the values a slider can report are those from \<open>lo\<close> to \<open>hi\<close> on
  the grid of its \<open>step\<close>, the three being the \<^verbatim>\<open>min\<close>, \<^verbatim>\<open>max\<close> and \<^verbatim>\<open>step\<close>
  attributes that \<^verbatim>\<open>App.tsx\<close> passes.
\<close>

definition slider_value :: "rat \<Rightarrow> rat \<Rightarrow> rat \<Rightarrow> rat \<Rightarrow> bool" where
  "slider_value lo hi st v =
     (lo \<le> v \<and> v \<le> hi \<and> of_int \<lfloor>(v - lo) / st\<rfloor> = (v - lo) / st)"

text \<open>
  The writes to the parameters: the four sliders, each through \<^verbatim>\<open>handleSliderChange\<close>,
  and \<^verbatim>\<open>handleUpdateMarketData\<close>, whose two arguments here are the values of its two
  calls of \<^verbatim>\<open>Math.random()\<close>.
\<close>

datatype event =
    SetEmployees rat
  | SetMarketingBudget rat
  | SetProductPrice rat
  | SetCurrentCash rat
  | UpdateMarketData rat rat

text \<open>
  One write; \<open>None\<close> for an event that cannot happen, a value no slider reports or a
  random number outside \<open>[0, 1)\<close>.
\<close>

fun apply_event :: "params \<Rightarrow> event \<Rightarrow> params option" where
  "apply_event p (SetEmployees v) =
     (if slider_value 1 50 1 v then Some (p\<lparr>employees := v\<rparr>) else None)"
| "apply_event p (SetMarketingBudget v) =
     (if slider_value 0 200000 5000 v then Some (p\<lparr>marketingBudget := v\<rparr>) else None)"
| "apply_event p (SetProductPrice v) =
     (if slider_value 10 1000 10 v then Some (p\<lparr>productPrice := v\<rparr>) else None)"
| "apply_event p (SetCurrentCash v) =
     (if slider_value 100000 10000000 50000 v then Some (p\<lparr>currentCash := v\<rparr>) else None)"
| "apply_event p (UpdateMarketData r1 r2) =
     (if 0 \<le> r1 \<and> r1 < 1 \<and> 0 \<le> r2 \<and> r2 < 1 then
        (let newCustomerCount = of_int \<lfloor>80 + r1 * 40\<rfloor>;
             newFixedCosts = of_int \<lfloor>15000 + r2 * 10000\<rfloor>
         in Some (p\<lparr>baseCustomerCount := newCustomerCount,
                     fixedMonthlyCosts := newFixedCosts\<rparr>))
      else None)"

text \<open>The state after a sequence of writes, from the state \<open>p\<close>.\<close>

fun apply_events :: "params \<Rightarrow> event list \<Rightarrow> params option" where
  "apply_events p [] = Some p"
| "apply_events p (ev # evs) =
     (case apply_event p ev of None \<Rightarrow> None | Some p' \<Rightarrow> apply_events p' evs)"

text \<open>The ranges of the sliders and of the market data.\<close>

definition in_range :: "params \<Rightarrow> bool" where
  "in_range p =
     (1 \<le> employees p \<and> employees p \<le> 50
      \<and> 0 \<le> marketingBudget p \<and> marketingBudget p \<le> 200000
      \<and> 10 \<le> productPrice p \<and> productPrice p \<le> 1000
      \<and> 100000 \<le> currentCash p \<and> currentCash p \<le> 10000000
      \<and> 80 \<le> baseCustomerCount p \<and> baseCustomerCount p < 120
      \<and> 15000 \<le> fixedMonthlyCosts p \<and> fixedMonthlyCosts p < 25000)"

subsection \<open>Recommendations\<close>

datatype icon = AlertTriangle | CheckCircle | TrendingDown | TrendingUp

record recommendation =
  rec_type :: string
  rec_icon :: icon
  rec_title :: string
  rec_message :: string
  rec_color :: string

definition getAIRecommendations :: "params \<Rightarrow> recommendation list" where
  "getAIRecommendations p =
     (if runwayMonths p < 3 then
        [\<lparr>rec_type = ''critical'', rec_icon = AlertTriangle,
          rec_title = ''Critical Cash Situation'',
          rec_message = ''Immediate action required. Consider reducing costs or raising funds within 60 days.'',
          rec_color = ''text-red-400''\<rparr>]
      else [])
     @ (if netCashFlow p \<ge> 0 then
        [\<lparr>rec_type = ''positive'', rec_icon = CheckCircle,
          rec_title = ''Profitable Operations'',
          rec_message = ''Great! Consider reinvesting profits into growth or building reserves.'',
          rec_color = ''text-green-400''\<rparr>]
      else [])
     @ (if employees p > 10 \<and> runwayMonths p < 6 then
        [\<lparr>rec_type = ''warning'', rec_icon = TrendingDown,
          rec_title = ''High Burn from Team Size'',
          rec_message = ''Consider optimizing team size or increasing revenue to sustain current headcount.'',
          rec_color = ''text-yellow-400''\<rparr>]
      else [])
     @ (if productPrice p < 100 \<and> js_gt (breakEvenCustomers p) 500 then
        [\<lparr>rec_type = ''opportunity'', rec_icon = TrendingUp,
          rec_title = ''Pricing Opportunity'',
          rec_message = ''Consider raising prices. Even a 20% increase could significantly improve unit economics.'',
          rec_color = ''text-blue-400''\<rparr>]
      else [])"

subsection \<open>Twelve-month projection\<close>

record projection_point =
  month :: string
  cash :: rat
  revenue :: rat
  expenses :: rat
  netFlow :: rat

text \<open>
  The \<^verbatim>\<open>for\<close> loop of \<^verbatim>\<open>generateProjectionData\<close>: \<open>m\<close> is the loop variable,
  \<open>cashBalance\<close> the running balance and \<open>data\<close> the array built so far.
\<close>

function projection_loop :: "params \<Rightarrow> nat \<Rightarrow> rat \<Rightarrow> projection_point list \<Rightarrow> projection_point list" where
  "projection_loop p m cashBalance data =
     (if m \<le> 12 then
        (let cashBalance' = cashBalance + netCashFlow p in
         projection_loop p (m + 1) cashBalance'
           (data @ [\<lparr>month = ''Month '' @ string_of_nat m,
                     cash = max 0 cashBalance',
                     revenue = monthlyRevenue p,
                     expenses = totalMonthlyBurn p,
                     netFlow = netCashFlow p\<rparr>]))
      else data)"
  by pat_completeness auto
termination
  by (relation "measure (\<lambda>(p, m, cashBalance, data). 13 - m)") auto

declare projection_loop.simps [simp del]

definition generateProjectionData :: "params \<Rightarrow> projection_point list" where
  "generateProjectionData p = projection_loop p 1 (currentCash p) []"

section \<open>Server\<close>

subsection \<open>Insights and projections\<close>

text \<open>
  The fields that \<^verbatim>\<open>generateAIInsights\<close> and \<^verbatim>\<open>generateProjections\<close> read from
  \<^verbatim>\<open>data.metrics\<close>, each taken to hold a finite number.
\<close>

record metrics =
  m_totalMonthlyBurn :: rat
  m_monthlyRevenue :: rat
  m_runwayMonths :: rat
  m_employees :: rat
  m_productPrice :: rat
  m_currentCash :: rat

record insight =
  category :: string
  ins_type :: string
  message :: string

definition generateAIInsights :: "metrics \<Rightarrow> insight list" where
  "generateAIInsights d =
     (if m_monthlyRevenue d > m_totalMonthlyBurn d then
        [\<lparr>category = ''Cash Flow'', ins_type = ''positive'',
          message = ''Strong positive cash flow indicates healthy business operations.''\<rparr>]
      else
        [\<lparr>category = ''Cash Flow'', ins_type = ''warning'',
          message = ''Negative cash flow requires immediate attention to extend runway.''\<rparr>])
     @ (if m_runwayMonths d < 6 then
        [\<lparr>category = ''Runway'', ins_type = ''critical'',
          message = ''Critical runway situation. Focus on revenue growth or cost reduction.''\<rparr>]
      else if m_runwayMonths d > 18 then
        [\<lparr>category = ''Runway'', ins_type = ''opportunity'',
          message = ''Healthy runway provides opportunity for strategic investments.''\<rparr>]
      else [])
     @ (if m_productPrice d < 200 then
        [\<lparr>category = ''Pricing'', ins_type = ''opportunity'',
          message = ''Consider price optimization to improve unit economics.''\<rparr>]
      else [])"

record projection =
  p_month :: nat
  p_cashBalance :: rat
  p_revenue :: rat
  p_expenses :: rat
  p_netFlow :: rat

function projections_loop :: "metrics \<Rightarrow> nat \<Rightarrow> rat \<Rightarrow> projection list \<Rightarrow> projection list" where
  "projections_loop d m cashBalance projections =
     (if m \<le> 12 then
        (let cashBalance' = cashBalance + (m_monthlyRevenue d - m_totalMonthlyBurn d) in
         projections_loop d (m + 1) cashBalance'
           (projections @ [\<lparr>p_month = m,
                            p_cashBalance = max 0 cashBalance',
                            p_revenue = m_monthlyRevenue d,
                            p_expenses = m_totalMonthlyBurn d,
                            p_netFlow = m_monthlyRevenue d - m_totalMonthlyBurn d\<rparr>]))
      else projections)"
  by pat_completeness auto
termination
  by (relation "measure (\<lambda>(d, m, cashBalance, projections). 13 - m)") auto

declare projections_loop.simps [simp del]

definition generateProjections :: "metrics \<Rightarrow> projection list" where
  "generateProjections d = projections_loop d 1 (m_currentCash d) []"

text \<open>
  The metrics object a client state gives rise to: the values of the client's constants
  under the names the server reads.
\<close>

definition metrics_of :: "params \<Rightarrow> metrics" where
  "metrics_of p =
     \<lparr>m_totalMonthlyBurn = totalMonthlyBurn p, m_monthlyRevenue = monthlyRevenue p,
      m_runwayMonths = runwayMonths p, m_employees = employees p,
      m_productPrice = productPrice p, m_currentCash = currentCash p\<rparr>"

subsection \<open>Stored records\<close>

text \<open>
  Instants are milliseconds since the epoch: \<^verbatim>\<open>Date.now()\<close> returns that number, and
  \<^verbatim>\<open>new Date().toISOString()\<close> prints it with millisecond precision, from which
  \<^verbatim>\<open>new Date(s).getTime()\<close> reads it back.
\<close>

type_synonym instant = nat

record usage =
  scenarios :: int
  reports :: int
  lastUpdated :: "instant option"

text \<open>The request body of \<^verbatim>\<open>POST /scenario\<close> is arbitrary JSON, of type \<open>'a\<close> here.\<close>

record 'a scenario =
  payload :: 'a
  timestamp :: instant

text \<open>
  The request body of \<^verbatim>\<open>POST /generate-report\<close>: arbitrary JSON \<open>'a\<close> beside the
  \<^verbatim>\<open>metrics\<close> object; a body without one makes the destructuring throw.
\<close>

record 'a report_input =
  other_fields :: 'a
  req_metrics :: "metrics option"

record 'a report =
  input :: "'a report_input"
  report_id :: string
  report_timestamp :: instant
  aiInsights :: "insight list"
  projections :: "projection list"

record usage_input =
  in_scenarios :: int
  in_reports :: int

subsection \<open>Key-value store\<close>

text \<open>
  Modelled from the spec: the module \<^verbatim>\<open>kv_store.tsx\<close> (\<^verbatim>\<open>get\<close>, \<^verbatim>\<open>set\<close>,
  \<^verbatim>\<open>getByPrefix\<close>) is not among the sources.  The specification describes
  \<^verbatim>\<open>get(key) -> value|absent\<close>, \<^verbatim>\<open>set(key, value) -> ack\<close> and
  \<^verbatim>\<open>getByPrefix(prefix) -> sequence of values\<close> in an order the store does not fix, over
  a durable table, each of which may throw when the store is unavailable.

  The table is kept as one association list per family of records of the data model: the
  usage counters under the key \<^verbatim>\<open>cfo-helper-usage\<close>, the scenario snapshots and the
  reports under their time-derived keys.  A list holds its records in an arbitrary order,
  which is the order a prefix scan returns them in.
\<close>

record 'a store =
  usage_rec :: "usage option"
  scenario_tbl :: "(string \<times> 'a scenario) list"
  report_tbl :: "(string \<times> 'a report) list"

definition empty_store :: "'a store" where
  "empty_store = \<lparr>usage_rec = None, scenario_tbl = [], report_tbl = []\<rparr>"

definition usage_key :: string where
  "usage_key = ''cfo-helper-usage''"

text \<open>
  Modelled from the spec: the failure of a store operation (\<^emph>\<open>store-unavailable: read or
  write throws\<close>), the module that raises it being absent.
\<close>

datatype exn = StoreUnavailable

text \<open>
  Modelled from the spec: \<^verbatim>\<open>set(key, value)\<close> on one table of the absent module.
  Writing under a key replaces the record already there, or adds one.
\<close>

fun upsert :: "string \<Rightarrow> 'v \<Rightarrow> (string \<times> 'v) list \<Rightarrow> (string \<times> 'v) list" where
  "upsert k v [] = [(k, v)]"
| "upsert k v ((k', v') # kvs) =
     (if k' = k then (k, v) # kvs else (k', v') # upsert k v kvs)"

text \<open>
  Modelled from the spec: \<^verbatim>\<open>kv.get("cfo-helper-usage")\<close> of the absent module, the
  stored usage record or nothing.  The flag \<open>fails\<close> says whether this call throws.
\<close>

definition kv_get_usage :: "bool \<Rightarrow> 'a store \<Rightarrow> exn + usage option" where
  "kv_get_usage fails s = (if fails then Inl StoreUnavailable else Inr (usage_rec s))"

text \<open>
  Modelled from the spec: \<^verbatim>\<open>kv.set("cfo-helper-usage", u)\<close> of the absent module.
\<close>

definition kv_set_usage :: "bool \<Rightarrow> 'a store \<Rightarrow> usage \<Rightarrow> exn + 'a store" where
  "kv_set_usage fails s u =
     (if fails then Inl StoreUnavailable else Inr (s\<lparr>usage_rec := Some u\<rparr>))"

text \<open>
  Modelled from the spec: \<^verbatim>\<open>kv.set(scenarioId, v)\<close> of the absent module, for a
  scenario snapshot.
\<close>

definition kv_set_scenario :: "bool \<Rightarrow> 'a store \<Rightarrow> string \<Rightarrow> 'a scenario \<Rightarrow> exn + 'a store" where
  "kv_set_scenario fails s k v =
     (if fails then Inl StoreUnavailable
      else Inr (s\<lparr>scenario_tbl := upsert k v (scenario_tbl s)\<rparr>))"

text \<open>
  Modelled from the spec: \<^verbatim>\<open>kv.set(reportId, v)\<close> of the absent module, for a report.
\<close>

definition kv_set_report :: "bool \<Rightarrow> 'a store \<Rightarrow> string \<Rightarrow> 'a report \<Rightarrow> exn + 'a store" where
  "kv_set_report fails s k v =
     (if fails then Inl StoreUnavailable
      else Inr (s\<lparr>report_tbl := upsert k v (report_tbl s)\<rparr>))"

text \<open>
  Modelled from the spec: \<^verbatim>\<open>kv.getByPrefix(prefix)\<close> of the absent module, for a prefix
  of snapshot keys.  Neither the usage key nor a report key starts with
  \<^verbatim>\<open>scenario-\<close> (lemma \<open>other_keys_not_scanned\<close>), so the scan of \<^verbatim>\<open>GET /scenarios\<close>
  reads the snapshot table only.
\<close>

definition kv_getByPrefix :: "bool \<Rightarrow> 'a store \<Rightarrow> string \<Rightarrow> exn + 'a scenario list" where
  "kv_getByPrefix fails s pre =
     (if fails then Inl StoreUnavailable
      else Inr (map snd (filter (\<lambda>(k, v). prefix pre k) (scenario_tbl s))))"

subsection \<open>Responses\<close>

text \<open>The JSON bodies the handlers send, one constructor for each object literal.\<close>

datatype 'a body =
    Health string
  | UsageData usage
  | UsageSaved bool int int
  | ScenarioSaved bool string
  | ScenarioList "'a scenario list"
  | ReportSaved bool string "'a report"
  | Error string

record 'a response =
  status :: nat
  body :: "'a body"

text \<open>\<^verbatim>\<open>c.json(x)\<close> answers with status 200, \<^verbatim>\<open>c.json(x, 500)\<close> with 500.\<close>

definition json :: "'a body \<Rightarrow> 'a response" where
  "json b = \<lparr>status = 200, body = b\<rparr>"

definition json_status :: "'a body \<Rightarrow> nat \<Rightarrow> 'a response" where
  "json_status b st = \<lparr>status = st, body = b\<rparr>"

text \<open>The literal \<^verbatim>\<open>{ scenarios: 0, reports: 0 }\<close>.\<close>

definition default_usage :: usage where
  "default_usage = \<lparr>scenarios = 0, reports = 0, lastUpdated = None\<rparr>"

text \<open>\<^verbatim>\<open>(await kv.get(...)) || { scenarios: 0, reports: 0 }\<close>: a stored object is truthy.\<close>

definition or_default :: "usage option \<Rightarrow> usage" where
  "or_default got = (case got of None \<Rightarrow> default_usage | Some u \<Rightarrow> u)"

subsection \<open>Sorting\<close>

text \<open>
  \<^verbatim>\<open>Array.prototype.sort\<close> with a comparator \<open>cmp\<close>: a stable sort that puts \<open>a\<close>
  before \<open>b\<close> when \<open>cmp a b\<close> is negative.  Modelled as a stable insertion sort.
\<close>

fun insert_by :: "('v \<Rightarrow> 'v \<Rightarrow> int) \<Rightarrow> 'v \<Rightarrow> 'v list \<Rightarrow> 'v list" where
  "insert_by cmp x [] = [x]"
| "insert_by cmp x (y # ys) =
     (if cmp x y \<le> 0 then x # y # ys else y # insert_by cmp x ys)"

definition js_sort :: "('v \<Rightarrow> 'v \<Rightarrow> int) \<Rightarrow> 'v list \<Rightarrow> 'v list" where
  "js_sort cmp xs = foldr (insert_by cmp) xs []"

text \<open>The comparator of \<^verbatim>\<open>GET /scenarios\<close>.\<close>

definition newest_first :: "'a scenario \<Rightarrow> 'a scenario \<Rightarrow> int" where
  "newest_first a b = int (timestamp b) - int (timestamp a)"

subsection \<open>Handlers\<close>

text \<open>
  What a request meets besides the store: \<open>throws i\<close> says whether the \<open>i\<close>-th store
  call of the request (counted from 0) throws, \<open>date_now\<close> is the value of
  \<^verbatim>\<open>Date.now()\<close> and \<open>new_date\<close> the instant of \<^verbatim>\<open>new Date()\<close>.
  A request body is \<open>None\<close> when \<^verbatim>\<open>c.req.json()\<close> throws.
  A handler returns its response and the store it leaves behind.
\<close>

record env =
  throws :: "nat \<Rightarrow> bool"
  date_now :: instant
  new_date :: instant

definition get_health :: "'a store \<Rightarrow> 'a response \<times> 'a store" where
  "get_health s = (json (Health ''ok''), s)"

definition get_usage :: "env \<Rightarrow> 'a store \<Rightarrow> 'a response \<times> 'a store" where
  "get_usage e s =
     (case kv_get_usage (throws e 0) s of
        Inl err \<Rightarrow> (json_status (UsageData default_usage) 500, s)
      | Inr got \<Rightarrow> (json (UsageData (or_default got)), s))"

definition post_usage :: "env \<Rightarrow> usage_input option \<Rightarrow> 'a store \<Rightarrow> 'a response \<times> 'a store" where
  "post_usage e req s =
     (case req of
        None \<Rightarrow> (json_status (Error ''Failed to save usage data'') 500, s)
      | Some b \<Rightarrow>
          (case kv_set_usage (throws e 0) s
                  \<lparr>scenarios = in_scenarios b, reports = in_reports b,
                   lastUpdated = Some (new_date e)\<rparr> of
             Inl err \<Rightarrow> (json_status (Error ''Failed to save usage data'') 500, s)
           | Inr s1 \<Rightarrow> (json (UsageSaved True (in_scenarios b) (in_reports b)), s1)))"

definition post_scenario :: "env \<Rightarrow> 'a option \<Rightarrow> 'a store \<Rightarrow> 'a response \<times> 'a store" where
  "post_scenario e req s =
     (case req of
        None \<Rightarrow> (json_status (Error ''Failed to save scenario'') 500, s)
      | Some scenarioData \<Rightarrow>
          (let scenarioId = ''scenario-'' @ string_of_nat (date_now e) in
           case kv_set_scenario (throws e 0) s scenarioId
                  \<lparr>payload = scenarioData, timestamp = new_date e\<rparr> of
             Inl err \<Rightarrow> (json_status (Error ''Failed to save scenario'') 500, s)
           | Inr s1 \<Rightarrow>
               (case kv_get_usage (throws e 1) s1 of
                  Inl err \<Rightarrow> (json_status (Error ''Failed to save scenario'') 500, s1)
                | Inr got \<Rightarrow>
                    (let usageData = or_default got;
                         usageData = usageData\<lparr>scenarios := scenarios usageData + 1\<rparr>
                     in case kv_set_usage (throws e 2) s1 usageData of
                          Inl err \<Rightarrow> (json_status (Error ''Failed to save scenario'') 500, s1)
                        | Inr s2 \<Rightarrow> (json (ScenarioSaved True scenarioId), s2)))))"

definition get_scenarios :: "env \<Rightarrow> 'a store \<Rightarrow> 'a response \<times> 'a store" where
  "get_scenarios e s =
     (case kv_getByPrefix (throws e 0) s ''scenario-'' of
        Inl err \<Rightarrow> (json_status (ScenarioList []) 500, s)
      | Inr found \<Rightarrow>
          (let sortedScenarios = take 10 (js_sort newest_first found)
           in (json (ScenarioList sortedScenarios), s)))"

definition post_generate_report ::
  "env \<Rightarrow> 'a report_input option \<Rightarrow> 'a store \<Rightarrow> 'a response \<times> 'a store" where
  "post_generate_report e req s =
     (case req of
        None \<Rightarrow> (json_status (Error ''Failed to generate report'') 500, s)
      | Some reportData \<Rightarrow>
          (let reportId = ''report-'' @ string_of_nat (date_now e) in
           case req_metrics reportData of
             None \<Rightarrow> (json_status (Error ''Failed to generate report'') 500, s)
           | Some d \<Rightarrow>
               (let enhancedReport =
                      \<lparr>input = reportData, report_id = reportId,
                       report_timestamp = new_date e,
                       aiInsights = generateAIInsights d,
                       projections = generateProjections d\<rparr>
                in case kv_set_report (throws e 0) s reportId enhancedReport of
                     Inl err \<Rightarrow> (json_status (Error ''Failed to generate report'') 500, s)
                   | Inr s1 \<Rightarrow>
                       (case kv_get_usage (throws e 1) s1 of
                          Inl err \<Rightarrow> (json_status (Error ''Failed to generate report'') 500, s1)
                        | Inr got \<Rightarrow>
                            (let usageData = or_default got;
                                 usageData = usageData\<lparr>reports := reports usageData + 1\<rparr>
                             in case kv_set_usage (throws e 2) s1 usageData of
                                  Inl err \<Rightarrow>
                                    (json_status (Error ''Failed to generate report'') 500, s1)
                                | Inr s2 \<Rightarrow>
                                    (json (ReportSaved True reportId enhancedReport), s2))))))"

text \<open>The routes of the application.\<close>

datatype 'a request =
    GetHealth
  | GetUsage
  | PostUsage "usage_input option"
  | PostScenario "'a option"
  | GetScenarios
  | PostGenerateReport "'a report_input option"

fun handle :: "env \<Rightarrow> 'a request \<Rightarrow> 'a store \<Rightarrow> 'a response \<times> 'a store" where
  "handle e GetHealth s = get_health s"
| "handle e GetUsage s = get_usage e s"
| "handle e (PostUsage req) s = post_usage e req s"
| "handle e (PostScenario req) s = post_scenario e req s"
| "handle e GetScenarios s = get_scenarios e s"
| "handle e (PostGenerateReport req) s = post_generate_report e req s"

text \<open>The counters a read of the store reports: those of the stored record, or the default.\<close>

definition counters :: "'a store \<Rightarrow> int \<times> int" where
  "counters s = (scenarios (or_default (usage_rec s)), reports (or_default (usage_rec s)))"

subsection \<open>Outcomes of a request\<close>

text \<open>
  The number of store calls on the path of a handler through its \<^verbatim>\<open>try\<close> block, and
  the requests whose body makes the block throw before any store call: a body that does
  not parse, or a report input without a \<^verbatim>\<open>metrics\<close> object.
\<close>

fun store_calls :: "'a request \<Rightarrow> nat" where
  "store_calls GetHealth = 0"
| "store_calls GetUsage = 1"
| "store_calls (PostUsage req) = 1"
| "store_calls (PostScenario req) = 3"
| "store_calls GetScenarios = 1"
| "store_calls (PostGenerateReport req) = 3"

fun malformed :: "'a request \<Rightarrow> bool" where
  "malformed (PostUsage None) = True"
| "malformed (PostScenario None) = True"
| "malformed (PostGenerateReport None) = True"
| "malformed (PostGenerateReport (Some reportData)) = (req_metrics reportData = None)"
| "malformed req = False"

text \<open>
  The bodies of the \<^verbatim>\<open>catch\<close> blocks: the default counters, the empty list of scenarios,
  or an object with an \<^verbatim>\<open>error\<close> string.
\<close>

fun fallback_body :: "'a body \<Rightarrow> bool" where
  "fallback_body (UsageData u) = (u = default_usage)"
| "fallback_body (ScenarioList xs) = (case xs of [] \<Rightarrow> True | x # ys \<Rightarrow> False)"
| "fallback_body (Error msg) = True"
| "fallback_body b = False"

section \<open>Properties of the Metrics Engine\<close>

lemmas metric_defs = totalMonthlyBurn_def monthlySalaryCost_def monthlyRevenue_def
  netCashFlow_def runwayMonths_def breakEvenCustomers_def


text \<open>
  Claim C1: the monthly burn is \<open>employees * 60000 + marketingBudget + fixedMonthlyCosts\<close>
  and the monthly revenue is \<open>baseCustomerCount * productPrice\<close>, for every parameter
  vector (in particular for the non-negative ones); on the example of the specification
  the engine yields a burn of 350000, a revenue of 15000, a net cash flow of -335000, a
  runway of 800000/350000 months and 2334 break-even customers.
\<close>

theorem metrics_formulas_and_example:
  "totalMonthlyBurn p = employees p * 60000 + marketingBudget p + fixedMonthlyCosts p
   \<and> monthlyRevenue p = baseCustomerCount p * productPrice p
   \<and> totalMonthlyBurn initial_params = 350000
   \<and> monthlyRevenue initial_params = 15000
   \<and> netCashFlow initial_params = - 335000
   \<and> runwayMonths initial_params = 800000 / 350000
   \<and> breakEvenCustomers initial_params = Fin 2334"
  by (simp add: totalMonthlyBurn_def monthlySalaryCost_def monthlyRevenue_def netCashFlow_def
      runwayMonths_def breakEvenCustomers_def initial_params_def js_div_def ceiling_unique)

subsection \<open>The projection loops\<close>

text \<open>
  What the client's loop returns when entered at month \<open>m\<close> with balance \<open>cb\<close>: one
  point for each remaining month, the balance of month \<open>k\<close> having grown \<open>k + 1 - m\<close> times.
\<close>

lemma projection_loop_eq:
  "projection_loop p m cb data
     = data @ map (\<lambda>k. \<lparr>month = ''Month '' @ string_of_nat k,
       cash = max 0 (cb + of_nat (k + 1 - m) * netCashFlow p),
       revenue = monthlyRevenue p, expenses = totalMonthlyBurn p, netFlow = netCashFlow p\<rparr>) [m..<13]"
proof (induction p m cb data rule: projection_loop.induct)
  case (1 p m cb data)
  show ?case
  proof (cases "m \<le> 12")
    case False
    then show ?thesis by (simp add: projection_loop.simps [of p m])
  next
    case True
    have split: "[m..<13] = m # [m + 1..<13]"
      using True by (simp add: upt_conv_Cons)
    have shift: "\<And>k. k \<in> set [m + 1..<13] \<Longrightarrow>
        cb + netCashFlow p + of_nat (k + 1 - (m + 1)) * netCashFlow p
          = cb + of_nat (k + 1 - m) * netCashFlow p"
    proof -
      fix k assume "k \<in> set [m + 1..<13]"
      then have "k + 1 - m = Suc (k + 1 - (m + 1))" by auto
      then show "cb + netCashFlow p + of_nat (k + 1 - (m + 1)) * netCashFlow p
          = cb + of_nat (k + 1 - m) * netCashFlow p"
        by (simp add: algebra_simps)
    qed
    have "projection_loop p m cb data =
        projection_loop p (m + 1) (cb + netCashFlow p)
           (data @ [\<lparr>month = ''Month '' @ string_of_nat m,
                     cash = max 0 (cb + netCashFlow p),
                     revenue = monthlyRevenue p,
                     expenses = totalMonthlyBurn p,
                     netFlow = netCashFlow p\<rparr>])"
      using True by (simp add: projection_loop.simps [of p m] Let_def)
    also have "\<dots> = (data @ [\<lparr>month = ''Month '' @ string_of_nat m,
                     cash = max 0 (cb + netCashFlow p),
                     revenue = monthlyRevenue p,
                     expenses = totalMonthlyBurn p,
                     netFlow = netCashFlow p\<rparr>]) @
         map (\<lambda>k. \<lparr>month = ''Month '' @ string_of_nat k,
       cash = max 0 (cb + netCashFlow p + of_nat (k + 1 - (m + 1)) * netCashFlow p),
       revenue = monthlyRevenue p, expenses = totalMonthlyBurn p, netFlow = netCashFlow p\<rparr>) [m + 1..<13]"
      using True by (rule "1.IH") simp
    also have "\<dots> = data @ map (\<lambda>k. \<lparr>month = ''Month '' @ string_of_nat k,
       cash = max 0 (cb + of_nat (k + 1 - m) * netCashFlow p),
       revenue = monthlyRevenue p, expenses = totalMonthlyBurn p, netFlow = netCashFlow p\<rparr>) [m..<13]"
    proof -
      have rest: "map (\<lambda>k. \<lparr>month = ''Month '' @ string_of_nat k,
            cash = max 0 (cb + netCashFlow p + of_nat (k + 1 - (m + 1)) * netCashFlow p),
            revenue = monthlyRevenue p, expenses = totalMonthlyBurn p,
            netFlow = netCashFlow p\<rparr>) [m + 1..<13]
        = map (\<lambda>k. \<lparr>month = ''Month '' @ string_of_nat k,
            cash = max 0 (cb + of_nat (k + 1 - m) * netCashFlow p),
            revenue = monthlyRevenue p, expenses = totalMonthlyBurn p,
            netFlow = netCashFlow p\<rparr>) [m + 1..<13]"
        by (rule map_cong [OF refl]) (simp only: shift)
      have first: "cb + of_nat (m + 1 - m) * netCashFlow p = cb + netCashFlow p"
        by simp
      show ?thesis
        unfolding split rest by (simp only: first list.map append_assoc append.simps)
    qed
    finally show ?thesis .
  qed
qed


text \<open>The same for the server's loop.\<close>

lemma projections_loop_eq:
  "projections_loop d m cb data
     = data @ map (\<lambda>k. \<lparr>p_month = k,
       p_cashBalance = max 0 (cb + of_nat (k + 1 - m) * (m_monthlyRevenue d - m_totalMonthlyBurn d)),
       p_revenue = m_monthlyRevenue d, p_expenses = m_totalMonthlyBurn d, p_netFlow = m_monthlyRevenue d - m_totalMonthlyBurn d\<rparr>) [m..<13]"
proof (induction d m cb data rule: projections_loop.induct)
  case (1 d m cb data)
  show ?case
  proof (cases "m \<le> 12")
    case False
    then show ?thesis by (simp add: projections_loop.simps [of d m])
  next
    case True
    have split: "[m..<13] = m # [m + 1..<13]"
      using True by (simp add: upt_conv_Cons)
    have shift: "\<And>k. k \<in> set [m + 1..<13] \<Longrightarrow>
        cb + (m_monthlyRevenue d - m_totalMonthlyBurn d) + of_nat (k + 1 - (m + 1)) * (m_monthlyRevenue d - m_totalMonthlyBurn d)
          = cb + of_nat (k + 1 - m) * (m_monthlyRevenue d - m_totalMonthlyBurn d)"
    proof -
      fix k assume "k \<in> set [m + 1..<13]"
      then have "k + 1 - m = Suc (k + 1 - (m + 1))" by auto
      then show "cb + (m_monthlyRevenue d - m_totalMonthlyBurn d) + of_nat (k + 1 - (m + 1)) * (m_monthlyRevenue d - m_totalMonthlyBurn d)
          = cb + of_nat (k + 1 - m) * (m_monthlyRevenue d - m_totalMonthlyBurn d)"
        by (simp add: algebra_simps)
    qed
    have "projections_loop d m cb data =
        projections_loop d (m + 1) (cb + (m_monthlyRevenue d - m_totalMonthlyBurn d))
           (data @ [\<lparr>p_month = m,
                     p_cashBalance = max 0 (cb + (m_monthlyRevenue d - m_totalMonthlyBurn d)),
                     p_revenue = m_monthlyRevenue d,
                     p_expenses = m_totalMonthlyBurn d,
                     p_netFlow = m_monthlyRevenue d - m_totalMonthlyBurn d\<rparr>])"
      using True by (simp add: projections_loop.simps [of d m] Let_def)
    also have "\<dots> = (data @ [\<lparr>p_month = m,
                     p_cashBalance = max 0 (cb + (m_monthlyRevenue d - m_totalMonthlyBurn d)),
                     p_revenue = m_monthlyRevenue d,
                     p_expenses = m_totalMonthlyBurn d,
                     p_netFlow = m_monthlyRevenue d - m_totalMonthlyBurn d\<rparr>]) @
         map (\<lambda>k. \<lparr>p_month = k,
       p_cashBalance = max 0 (cb + (m_monthlyRevenue d - m_totalMonthlyBurn d) + of_nat (k + 1 - (m + 1)) * (m_monthlyRevenue d - m_totalMonthlyBurn d)),
       p_revenue = m_monthlyRevenue d, p_expenses = m_totalMonthlyBurn d, p_netFlow = m_monthlyRevenue d - m_totalMonthlyBurn d\<rparr>) [m + 1..<13]"
      using True by (rule "1.IH") simp
    also have "\<dots> = data @ map (\<lambda>k. \<lparr>p_month = k,
       p_cashBalance = max 0 (cb + of_nat (k + 1 - m) * (m_monthlyRevenue d - m_totalMonthlyBurn d)),
       p_revenue = m_monthlyRevenue d, p_expenses = m_totalMonthlyBurn d, p_netFlow = m_monthlyRevenue d - m_totalMonthlyBurn d\<rparr>) [m..<13]"
    proof -
      have rest: "map (\<lambda>k. \<lparr>p_month = k,
            p_cashBalance = max 0 (cb + (m_monthlyRevenue d - m_totalMonthlyBurn d) + of_nat (k + 1 - (m + 1)) * (m_monthlyRevenue d - m_totalMonthlyBurn d)),
            p_revenue = m_monthlyRevenue d, p_expenses = m_totalMonthlyBurn d,
            p_netFlow = m_monthlyRevenue d - m_totalMonthlyBurn d\<rparr>) [m + 1..<13]
        = map (\<lambda>k. \<lparr>p_month = k,
            p_cashBalance = max 0 (cb + of_nat (k + 1 - m) * (m_monthlyRevenue d - m_totalMonthlyBurn d)),
            p_revenue = m_monthlyRevenue d, p_expenses = m_totalMonthlyBurn d,
            p_netFlow = m_monthlyRevenue d - m_totalMonthlyBurn d\<rparr>) [m + 1..<13]"
        by (rule map_cong [OF refl]) (simp only: shift)
      have first: "cb + of_nat (m + 1 - m) * (m_monthlyRevenue d - m_totalMonthlyBurn d) = cb + (m_monthlyRevenue d - m_totalMonthlyBurn d)"
        by simp
      show ?thesis
        unfolding split rest by (simp only: first list.map append_assoc append.simps)
    qed
    finally show ?thesis .
  qed
qed


text \<open>
  Claim C3: the client's \<open>generateProjectionData\<close> and the server's
  \<open>generateProjections\<close> both return exactly twelve entries, for the months 1 to 12 in
  increasing order; the cash balance of month \<open>m\<close> is
  \<open>max 0 (currentCash + m * netCashFlow)\<close>, and revenue and expenses are the monthly revenue
  and the monthly burn in every month.
\<close>

theorem projection_twelve_months:
  "generateProjectionData p =
     map (\<lambda>m. \<lparr>month = ''Month '' @ string_of_nat m,
                cash = max 0 (currentCash p + of_nat m * netCashFlow p),
                revenue = monthlyRevenue p, expenses = totalMonthlyBurn p,
                netFlow = netCashFlow p\<rparr>) [1..<13]
   \<and> generateProjections d =
     map (\<lambda>m. \<lparr>p_month = m,
                p_cashBalance =
                  max 0 (m_currentCash d + of_nat m * (m_monthlyRevenue d - m_totalMonthlyBurn d)),
                p_revenue = m_monthlyRevenue d, p_expenses = m_totalMonthlyBurn d,
                p_netFlow = m_monthlyRevenue d - m_totalMonthlyBurn d\<rparr>) [1..<13]
   \<and> length (generateProjectionData p) = 12
   \<and> length (generateProjections d) = 12"
  by (simp add: generateProjectionData_def projection_loop_eq
      generateProjections_def projections_loop_eq)

subsection \<open>The states the component can reach\<close>

lemma initial_in_range: "in_range initial_params"
  by (simp add: in_range_def initial_params_def)

lemma market_floor_bounds:
  fixes r :: rat
  assumes "0 \<le> r" "r < 1"
  shows "80 \<le> (of_int \<lfloor>80 + r * 40\<rfloor> :: rat)" "(of_int \<lfloor>80 + r * 40\<rfloor> :: rat) < 120"
    "15000 \<le> (of_int \<lfloor>15000 + r * 10000\<rfloor> :: rat)"
    "(of_int \<lfloor>15000 + r * 10000\<rfloor> :: rat) < 25000"
proof -
  have a: "(80::int) \<le> \<lfloor>80 + r * 40\<rfloor>" using assms by (simp add: le_floor_iff)
  have b: "\<lfloor>80 + r * 40\<rfloor> < (120::int)" using assms by (simp add: floor_less_iff)
  have c: "(15000::int) \<le> \<lfloor>15000 + r * 10000\<rfloor>" using assms by (simp add: le_floor_iff)
  have d: "\<lfloor>15000 + r * 10000\<rfloor> < (25000::int)" using assms by (simp add: floor_less_iff)
  show "80 \<le> (of_int \<lfloor>80 + r * 40\<rfloor> :: rat)" using a by linarith
  show "(of_int \<lfloor>80 + r * 40\<rfloor> :: rat) < 120" using b by linarith
  show "15000 \<le> (of_int \<lfloor>15000 + r * 10000\<rfloor> :: rat)" using c by linarith
  show "(of_int \<lfloor>15000 + r * 10000\<rfloor> :: rat) < 25000" using d by linarith
qed

lemma apply_event_in_range:
  assumes "in_range p" "apply_event p ev = Some p'"
  shows "in_range p'"
proof (cases ev)
  case (UpdateMarketData r1 r2)
  with assms have r: "0 \<le> r1" "r1 < 1" "0 \<le> r2" "r2 < 1"
    by (simp_all split: if_splits)
  from assms UpdateMarketData r have "p' = p\<lparr>baseCustomerCount := of_int \<lfloor>80 + r1 * 40\<rfloor>,
                     fixedMonthlyCosts := of_int \<lfloor>15000 + r2 * 10000\<rfloor>\<rparr>"
    by (simp add: Let_def)
  then show ?thesis
    using assms(1) market_floor_bounds [OF r(1,2)] market_floor_bounds [OF r(3,4)]
    by (simp add: in_range_def)
qed (use assms in \<open>auto simp add: in_range_def slider_value_def split: if_splits\<close>)

lemma apply_events_in_range:
  "in_range p \<Longrightarrow> apply_events p evs = Some p' \<Longrightarrow> in_range p'"
proof (induction evs arbitrary: p)
  case Nil
  then show ?case by simp
next
  case (Cons ev evs)
  then show ?case
    by (auto split: option.splits dest: apply_event_in_range)
qed

lemma in_range_positive:
  assumes "in_range p"
  shows "0 < totalMonthlyBurn p" "0 < productPrice p"
proof -
  have "0 \<le> employees p * 60000" using assms by (simp add: in_range_def)
  then show "0 < totalMonthlyBurn p"
    using assms by (simp add: in_range_def totalMonthlyBurn_def monthlySalaryCost_def)
  show "0 < productPrice p" using assms by (simp add: in_range_def)
qed

text \<open>
  Claim C2: for every parameter vector the runway is \<open>currentCash / monthlyBurn\<close> when the
  burn is positive and the sentinel 999 when it is not, so that the division is made under
  the guard only and never by zero; and for every parameter vector the component can hold,
  the initial one changed by any sequence of slider moves and market-data updates, the
  break-even count is the ceiling of \<open>monthlyBurn / productPrice\<close>, a finite number, and
  is not negative.
\<close>

theorem runway_and_break_even:
  "runwayMonths p = (if totalMonthlyBurn p > 0 then currentCash p / totalMonthlyBurn p else 999)
   \<and> (totalMonthlyBurn p > 0 \<longrightarrow>
        js_div (currentCash p) (totalMonthlyBurn p) = Fin (runwayMonths p))
   \<and> (apply_events initial_params evs = Some p \<longrightarrow>
        breakEvenCustomers p = Fin (of_int \<lceil>totalMonthlyBurn p / productPrice p\<rceil>)
        \<and> 0 \<le> \<lceil>totalMonthlyBurn p / productPrice p\<rceil>
        \<and> js_ge (breakEvenCustomers p) 0)"
proof -
  have "breakEvenCustomers p = Fin (of_int \<lceil>totalMonthlyBurn p / productPrice p\<rceil>)
        \<and> 0 \<le> \<lceil>totalMonthlyBurn p / productPrice p\<rceil>
        \<and> js_ge (breakEvenCustomers p) 0"
    if "apply_events initial_params evs = Some p"
  proof -
    have "in_range p"
      using initial_in_range that by (rule apply_events_in_range)
    then have pos: "0 < totalMonthlyBurn p" "0 < productPrice p"
      by (rule in_range_positive)+
    then have "0 \<le> totalMonthlyBurn p / productPrice p" by simp
    then have "(0::rat) \<le> of_int \<lceil>totalMonthlyBurn p / productPrice p\<rceil>"
      by (meson le_of_int_ceiling order_trans)
    then show ?thesis
      using pos by (simp add: breakEvenCustomers_def js_div_def)
  qed
  then show ?thesis
    by (auto simp add: runwayMonths_def js_div_def)
qed

theorem runway_and_break_even_witness:
  "apply_events initial_params [SetProductPrice 10, UpdateMarketData (1 / 2) (1 / 4)]
     = Some \<lparr>employees = 5, marketingBudget = 30000, productPrice = 10,
             currentCash = 800000, baseCustomerCount = 100, fixedMonthlyCosts = 17500\<rparr>
   \<and> totalMonthlyBurn \<lparr>employees = 5, marketingBudget = 30000, productPrice = 10,
             currentCash = 800000, baseCustomerCount = 100, fixedMonthlyCosts = 17500\<rparr> > 0
   \<and> runwayMonths \<lparr>employees = 5, marketingBudget = 30000, productPrice = 10,
             currentCash = 800000, baseCustomerCount = 100, fixedMonthlyCosts = 17500\<rparr>
       = 800000 / 347500
   \<and> breakEvenCustomers \<lparr>employees = 5, marketingBudget = 30000, productPrice = 10,
             currentCash = 800000, baseCustomerCount = 100, fixedMonthlyCosts = 17500\<rparr>
       = Fin 34750
   \<and> js_ge (breakEvenCustomers \<lparr>employees = 5, marketingBudget = 30000, productPrice = 10,
             currentCash = 800000, baseCustomerCount = 100, fixedMonthlyCosts = 17500\<rparr>) 0"
proof -
  have f1: "\<lfloor>80 + 1 / 2 * 40 :: rat\<rfloor> = 100" by (simp add: floor_unique)
  have f2: "\<lfloor>15000 + 1 / 4 * 10000 :: rat\<rfloor> = 17500" by (simp add: floor_unique)
  have run: "apply_events initial_params [SetProductPrice 10, UpdateMarketData (1 / 2) (1 / 4)]
     = Some \<lparr>employees = 5, marketingBudget = 30000, productPrice = 10,
             currentCash = 800000, baseCustomerCount = 100, fixedMonthlyCosts = 17500\<rparr>"
    by (simp add: initial_params_def slider_value_def f1 f2)
  show ?thesis
    using runway_and_break_even
      [of "\<lparr>employees = 5, marketingBudget = 30000, productPrice = 10,
             currentCash = 800000, baseCustomerCount = 100, fixedMonthlyCosts = 17500\<rparr>"
          "[SetProductPrice 10, UpdateMarketData (1 / 2) (1 / 4)]"] run
    by (simp add: metric_defs js_div_def ceiling_unique)
qed

section \<open>Client and server report content\<close>

text \<open>
  Claim C5, as amended: on the same burn, revenue and cash the two projection generators
  agree month by month on cash balance, revenue, expenses and net flow, the client
  labelling the month \<open>Month m\<close> where the server stores the number \<open>m\<close>.  Nothing is
  claimed about the two insight generators.
\<close>

theorem projections_equivalent:
  "map (\<lambda>x. (month x, cash x, revenue x, expenses x, netFlow x)) (generateProjectionData p)
   = map (\<lambda>y. (''Month '' @ string_of_nat (p_month y), p_cashBalance y, p_revenue y,
                 p_expenses y, p_netFlow y)) (generateProjections (metrics_of p))"
  by (simp add: generateProjectionData_def projection_loop_eq generateProjections_def
      projections_loop_eq metrics_of_def netCashFlow_def o_def)

text \<open>
  The insight generators are different rule lists: on the example the client gives one
  recommendation and the server three insights.
\<close>

theorem insights_differ_counterexample:
  "map rec_type (getAIRecommendations initial_params) = [''critical'']
   \<and> map ins_type (generateAIInsights (metrics_of initial_params))
       = [''warning'', ''critical'', ''opportunity'']
   \<and> length (getAIRecommendations initial_params)
       \<noteq> length (generateAIInsights (metrics_of initial_params))"
  by (simp add: getAIRecommendations_def generateAIInsights_def metrics_of_def metric_defs
      initial_params_def js_div_def ceiling_unique)

section \<open>Properties of the server\<close>

lemmas kv_defs = kv_get_usage_def kv_set_usage_def kv_set_scenario_def kv_set_report_def
  kv_getByPrefix_def

subsection \<open>Sorting\<close>

lemma set_insert_by: "set (insert_by cmp x ys) = insert x (set ys)"
  by (induction ys) auto

lemma set_js_sort: "set (js_sort cmp xs) = set xs"
  by (induction xs) (simp_all add: js_sort_def set_insert_by)

lemma sorted_insert_by:
  "sorted_wrt (\<lambda>a b. timestamp b \<le> timestamp a) ys \<Longrightarrow>
   sorted_wrt (\<lambda>a b. timestamp b \<le> timestamp a) (insert_by newest_first x ys)"
proof (induction ys)
  case Nil
  then show ?case by simp
next
  case (Cons y ys)
  show ?case
  proof (cases "newest_first x y \<le> 0")
    case True
    then have "timestamp y \<le> timestamp x" by (simp add: newest_first_def)
    with Cons.prems True show ?thesis by auto
  next
    case False
    then have "timestamp x \<le> timestamp y" by (simp add: newest_first_def)
    with Cons False show ?thesis by (auto simp add: set_insert_by)
  qed
qed

lemma sorted_js_sort:
  "sorted_wrt (\<lambda>a b. timestamp b \<le> timestamp a) (js_sort newest_first xs)"
proof (induction xs)
  case Nil
  then show ?case by (simp add: js_sort_def)
next
  case (Cons x xs)
  then show ?case using sorted_insert_by [of "js_sort newest_first xs" x]
    by (simp add: js_sort_def)
qed

text \<open>
  The prefix scan of \<^verbatim>\<open>GET /scenarios\<close> cannot meet the usage record or a report: their
  keys do not start with \<^verbatim>\<open>scenario-\<close>.
\<close>

lemma other_keys_not_scanned:
  "\<not> prefix ''scenario-'' usage_key \<and> \<not> prefix ''scenario-'' (''report-'' @ k)"
  by (simp add: usage_key_def)

text \<open>
  Claim C6: whatever scenario records are stored, \<^verbatim>\<open>GET /scenarios\<close> answers with at
  most ten of them, their timestamps non-increasing from the first to the last; on a
  store failure the list is empty.
\<close>

theorem recent_scenarios_sorted_and_bounded:
  "\<exists>xs. get_scenarios e s =
          (\<lparr>status = (if throws e 0 then 500 else 200), body = ScenarioList xs\<rparr>, s)
     \<and> length xs \<le> 10
     \<and> sorted_wrt (\<lambda>a b. timestamp b \<le> timestamp a) xs
     \<and> set xs \<subseteq> snd ` set (scenario_tbl s)"
proof (cases "throws e 0")
  case True
  then show ?thesis
    by (simp add: get_scenarios_def kv_getByPrefix_def json_status_def)
next
  case False
  let ?found = "map snd (filter (\<lambda>(k, v). prefix ''scenario-'' k) (scenario_tbl s))"
  let ?xs = "take 10 (js_sort newest_first ?found)"
  have "get_scenarios e s = (\<lparr>status = 200, body = ScenarioList ?xs\<rparr>, s)"
    using False by (simp add: get_scenarios_def kv_getByPrefix_def json_def)
  moreover have "length ?xs \<le> 10" by simp
  moreover have "sorted_wrt (\<lambda>a b. timestamp b \<le> timestamp a) ?xs"
    by (rule sorted_wrt_take) (rule sorted_js_sort)
  moreover have "set ?xs \<subseteq> snd ` set (scenario_tbl s)"
  proof -
    have "set ?xs \<subseteq> set (js_sort newest_first ?found)" by (rule set_take_subset)
    also have "\<dots> = set ?found" by (rule set_js_sort)
    also have "\<dots> \<subseteq> snd ` set (scenario_tbl s)" by auto
    finally show ?thesis .
  qed
  ultimately show ?thesis using False by auto
qed

subsection \<open>The usage record\<close>

text \<open>What each handler leaves under the usage key.\<close>

lemma post_scenario_usage:
  "usage_rec (snd (post_scenario e req s)) =
     (if status (fst (post_scenario e req s)) = 200
      then Some ((or_default (usage_rec s))
                   \<lparr>scenarios := scenarios (or_default (usage_rec s)) + 1\<rparr>)
      else usage_rec s)"
  by (simp add: post_scenario_def kv_defs json_def json_status_def Let_def split: option.splits)

lemma post_generate_report_usage:
  "usage_rec (snd (post_generate_report e req s)) =
     (if status (fst (post_generate_report e req s)) = 200
      then Some ((or_default (usage_rec s))
                   \<lparr>reports := reports (or_default (usage_rec s)) + 1\<rparr>)
      else usage_rec s)"
  by (simp add: post_generate_report_def kv_defs json_def json_status_def Let_def
      split: option.splits)

lemma post_usage_usage:
  "usage_rec (snd (post_usage e req s)) =
     (case req of
        None \<Rightarrow> usage_rec s
      | Some b \<Rightarrow>
          if throws e 0 then usage_rec s
          else Some \<lparr>scenarios = in_scenarios b, reports = in_reports b,
                     lastUpdated = Some (new_date e)\<rparr>)"
  by (simp add: post_usage_def kv_defs json_def json_status_def split: option.splits)

lemma reads_keep_store:
  "snd (get_health s) = s" "snd (get_usage e s) = s" "snd (get_scenarios e s) = s"
  by (simp_all add: get_health_def get_usage_def get_scenarios_def kv_defs Let_def)

lemma post_scenario_ok:
  "\<not> throws e 0 \<Longrightarrow> \<not> throws e 1 \<Longrightarrow> \<not> throws e 2 \<Longrightarrow>
   status (fst (post_scenario e (Some x) s)) = 200"
  by (simp add: post_scenario_def kv_defs json_def Let_def)

lemma post_generate_report_ok:
  "\<not> throws e 0 \<Longrightarrow> \<not> throws e 1 \<Longrightarrow> \<not> throws e 2 \<Longrightarrow> req_metrics x = Some d \<Longrightarrow>
   status (fst (post_generate_report e (Some x) s)) = 200"
  by (simp add: post_generate_report_def kv_defs json_def Let_def)

text \<open>
  Claim C10: the counter update of \<^verbatim>\<open>POST /scenario\<close> changes the \<open>scenarios\<close> field of
  the usage record only, \<open>reports\<close> and \<open>lastUpdated\<close> keeping the values that were read
  (the defaults when no record was stored); the update of \<^verbatim>\<open>POST /generate-report\<close>
  changes \<open>reports\<close> only.  On success the changed field has grown by one.
\<close>

theorem counter_update_frame:
  "reports (or_default (usage_rec (snd (post_scenario e req s))))
     = reports (or_default (usage_rec s))
   \<and> lastUpdated (or_default (usage_rec (snd (post_scenario e req s))))
       = lastUpdated (or_default (usage_rec s))
   \<and> scenarios (or_default (usage_rec (snd (post_generate_report e req' s))))
       = scenarios (or_default (usage_rec s))
   \<and> lastUpdated (or_default (usage_rec (snd (post_generate_report e req' s))))
       = lastUpdated (or_default (usage_rec s))
   \<and> (status (fst (post_scenario e req s)) = 200 \<longrightarrow>
        usage_rec (snd (post_scenario e req s))
          = Some ((or_default (usage_rec s))
                    \<lparr>scenarios := scenarios (or_default (usage_rec s)) + 1\<rparr>))
   \<and> (status (fst (post_generate_report e req' s)) = 200 \<longrightarrow>
        usage_rec (snd (post_generate_report e req' s))
          = Some ((or_default (usage_rec s))
                    \<lparr>reports := reports (or_default (usage_rec s)) + 1\<rparr>))"
  by (simp add: post_scenario_usage post_generate_report_usage or_default_def)

theorem counter_update_frame_witness:
  "status (fst (post_scenario \<lparr>throws = (\<lambda>i. False), date_now = 1000, new_date = 1001\<rparr>
            (Some ()) \<lparr>usage_rec = Some \<lparr>scenarios = 4, reports = 2, lastUpdated = Some 7\<rparr>,
                       scenario_tbl = [], report_tbl = []\<rparr>)) = 200
   \<and> status (fst (post_generate_report
            \<lparr>throws = (\<lambda>i. False), date_now = 1000, new_date = 1001\<rparr>
            (Some \<lparr>other_fields = (), req_metrics = Some (metrics_of initial_params)\<rparr>)
            \<lparr>usage_rec = Some \<lparr>scenarios = 4, reports = 2, lastUpdated = Some 7\<rparr>,
             scenario_tbl = [], report_tbl = []\<rparr>)) = 200
   \<and> usage_rec (snd (post_scenario \<lparr>throws = (\<lambda>i. False), date_now = 1000, new_date = 1001\<rparr>
            (Some ()) \<lparr>usage_rec = Some \<lparr>scenarios = 4, reports = 2, lastUpdated = Some 7\<rparr>,
                       scenario_tbl = [], report_tbl = []\<rparr>))
       = Some \<lparr>scenarios = 5, reports = 2, lastUpdated = Some 7\<rparr>
   \<and> usage_rec (snd (post_generate_report
            \<lparr>throws = (\<lambda>i. False), date_now = 1000, new_date = 1001\<rparr>
            (Some \<lparr>other_fields = (), req_metrics = Some (metrics_of initial_params)\<rparr>)
            \<lparr>usage_rec = Some \<lparr>scenarios = 4, reports = 2, lastUpdated = Some 7\<rparr>,
             scenario_tbl = [], report_tbl = []\<rparr>))
       = Some \<lparr>scenarios = 4, reports = 3, lastUpdated = Some 7\<rparr>"
  using counter_update_frame
    [of "\<lparr>throws = (\<lambda>i. False), date_now = 1000, new_date = 1001\<rparr>" "Some ()"
        "\<lparr>usage_rec = Some \<lparr>scenarios = 4, reports = 2, lastUpdated = Some 7\<rparr>,
          scenario_tbl = [], report_tbl = []\<rparr>"
        "Some \<lparr>other_fields = (), req_metrics = Some (metrics_of initial_params)\<rparr>"]
  by (simp add: post_scenario_ok post_generate_report_ok or_default_def)

text \<open>
  Claim C4, as amended: no operation other than \<^verbatim>\<open>POST /usage\<close> lowers a counter of the
  usage record; \<^verbatim>\<open>POST /usage\<close> replaces both counters by the values of its request,
  whatever they are.
\<close>

theorem counters_never_lowered_except_by_post_usage:
  "((\<forall>b. req \<noteq> PostUsage b) \<longrightarrow>
      fst (counters s) \<le> fst (counters (snd (handle e req s)))
      \<and> snd (counters s) \<le> snd (counters (snd (handle e req s))))
   \<and> (\<not> throws e 0 \<longrightarrow>
      counters (snd (handle e (PostUsage (Some u)) s)) = (in_scenarios u, in_reports u))"
proof -
  have "fst (counters s) \<le> fst (counters (snd (handle e req s)))
      \<and> snd (counters s) \<le> snd (counters (snd (handle e req s)))"
    if "\<forall>b. req \<noteq> PostUsage b"
    using that
    by (cases req)
       (simp_all add: counters_def reads_keep_store post_scenario_usage
          post_generate_report_usage or_default_def)
  moreover have "counters (snd (handle e (PostUsage (Some u)) s)) = (in_scenarios u, in_reports u)"
    if "\<not> throws e 0"
    using that by (simp add: counters_def post_usage_usage or_default_def)
  ultimately show ?thesis by blast
qed

theorem counters_never_lowered_except_by_post_usage_witness:
  "(\<forall>b. (PostScenario (Some ()) :: unit request) \<noteq> PostUsage b)
   \<and> \<not> throws \<lparr>throws = (\<lambda>i. False), date_now = 1000, new_date = 1001\<rparr> 0
   \<and> counters (empty_store :: unit store) = (0, 0)
   \<and> counters (snd (handle \<lparr>throws = (\<lambda>i. False), date_now = 1000, new_date = 1001\<rparr>
         (PostScenario (Some ())) (empty_store :: unit store))) = (1, 0)
   \<and> counters (snd (handle \<lparr>throws = (\<lambda>i. False), date_now = 1000, new_date = 1001\<rparr>
         (PostUsage (Some \<lparr>in_scenarios = 7, in_reports = 3\<rparr>)) (empty_store :: unit store)))
       = (7, 3)"
  using counters_never_lowered_except_by_post_usage
    [of "PostScenario (Some ())" "empty_store :: unit store"
        "\<lparr>throws = (\<lambda>i. False), date_now = 1000, new_date = 1001\<rparr>"
        "\<lparr>in_scenarios = 7, in_reports = 3\<rparr>"]
  by (simp add: counters_def post_scenario_usage post_scenario_ok or_default_def
      default_usage_def empty_store_def)

text \<open>
  The claim as stated fails for \<^verbatim>\<open>POST /usage\<close>: after one scenario has been saved in
  the empty store the counters are (1, 0), and a \<^verbatim>\<open>POST /usage\<close> with zeros sets them
  back to (0, 0).
\<close>

theorem post_usage_lowers_counters_counterexample:
  "counters (snd (handle \<lparr>throws = (\<lambda>i. False), date_now = 1000, new_date = 1001\<rparr>
       (PostScenario (Some ())) (empty_store :: unit store))) = (1, 0)
   \<and> counters (snd (handle \<lparr>throws = (\<lambda>i. False), date_now = 2000, new_date = 2001\<rparr>
       (PostUsage (Some \<lparr>in_scenarios = 0, in_reports = 0\<rparr>))
       (snd (handle \<lparr>throws = (\<lambda>i. False), date_now = 1000, new_date = 1001\<rparr>
          (PostScenario (Some ())) (empty_store :: unit store))))) = (0, 0)"
  by (simp add: counters_def post_scenario_usage post_scenario_ok post_usage_usage or_default_def
      default_usage_def empty_store_def)

subsection \<open>The response of POST /usage\<close>

text \<open>
  Claim C7, as amended: a successful \<^verbatim>\<open>POST /usage\<close> answers with status 200 and the body
  \<^verbatim>\<open>{success: true, scenarios, reports}\<close>, which echoes the input; the server timestamp
  is written to the stored record as \<open>lastUpdated\<close> and is not part of the response.
\<close>

theorem post_usage_echoes_input:
  "\<not> throws e 0 \<longrightarrow>
     post_usage e (Some b) s =
       (\<lparr>status = 200, body = UsageSaved True (in_scenarios b) (in_reports b)\<rparr>,
        s\<lparr>usage_rec := Some \<lparr>scenarios = in_scenarios b, reports = in_reports b,
                               lastUpdated = Some (new_date e)\<rparr>\<rparr>)"
  by (simp add: post_usage_def kv_defs json_def)

theorem post_usage_echoes_input_witness:
  "\<not> throws \<lparr>throws = (\<lambda>i. False), date_now = 1000, new_date = 1001\<rparr> 0
   \<and> post_usage \<lparr>throws = (\<lambda>i. False), date_now = 1000, new_date = 1001\<rparr>
        (Some \<lparr>in_scenarios = 3, in_reports = 1\<rparr>) (empty_store :: unit store) =
       (\<lparr>status = 200, body = UsageSaved True 3 1\<rparr>,
        \<lparr>usage_rec = Some \<lparr>scenarios = 3, reports = 1, lastUpdated = Some 1001\<rparr>,
         scenario_tbl = [], report_tbl = []\<rparr>)"
  using post_usage_echoes_input
    [of "\<lparr>throws = (\<lambda>i. False), date_now = 1000, new_date = 1001\<rparr>"
        "\<lparr>in_scenarios = 3, in_reports = 1\<rparr>" "empty_store :: unit store"]
  by (simp add: empty_store_def)

text \<open>
  The response carries no timestamp: it is the same object at two different server times,
  while the stored records differ.
\<close>

theorem post_usage_response_without_timestamp_counterexample:
  "fst (post_usage \<lparr>throws = (\<lambda>i. False), date_now = 1000, new_date = 1001\<rparr>
        (Some \<lparr>in_scenarios = 3, in_reports = 1\<rparr>) (empty_store :: unit store))
     = \<lparr>status = 200, body = UsageSaved True 3 1\<rparr>
   \<and> fst (post_usage \<lparr>throws = (\<lambda>i. False), date_now = 2000, new_date = 2001\<rparr>
        (Some \<lparr>in_scenarios = 3, in_reports = 1\<rparr>) (empty_store :: unit store))
     = \<lparr>status = 200, body = UsageSaved True 3 1\<rparr>
   \<and> usage_rec (snd (post_usage \<lparr>throws = (\<lambda>i. False), date_now = 1000, new_date = 1001\<rparr>
        (Some \<lparr>in_scenarios = 3, in_reports = 1\<rparr>) (empty_store :: unit store)))
     = Some \<lparr>scenarios = 3, reports = 1, lastUpdated = Some 1001\<rparr>
   \<and> usage_rec (snd (post_usage \<lparr>throws = (\<lambda>i. False), date_now = 2000, new_date = 2001\<rparr>
        (Some \<lparr>in_scenarios = 3, in_reports = 1\<rparr>) (empty_store :: unit store)))
     = Some \<lparr>scenarios = 3, reports = 1, lastUpdated = Some 2001\<rparr>"
  by (simp add: post_usage_def kv_defs json_def empty_store_def)

subsection \<open>Report generation\<close>

text \<open>The decimal rendering of an instant can be read back, so it determines the instant.\<close>

lemma digit_value: "d < 10 \<Longrightarrow> of_char (digit_char d) - 48 = (d::nat)"
  by (simp add: digit_char_def)

lemma string_of_nat_read_back:
  "foldl (\<lambda>acc c. 10 * acc + (of_char c - 48)) 0 (string_of_nat n) = n"
proof (induction n rule: string_of_nat.induct)
  case (1 n)
  show ?case
  proof (cases "n < 10")
    case True
    then show ?thesis by (simp add: string_of_nat.simps [of n] digit_value)
  next
    case False
    then have "foldl (\<lambda>acc c. 10 * acc + (of_char c - 48)) 0 (string_of_nat (n div 10)) = n div 10"
      by (rule "1.IH")
    moreover have "n mod 10 < 10" by simp
    ultimately show ?thesis using False
      by (simp add: string_of_nat.simps [of n] digit_value)
  qed
qed

lemma string_of_nat_inj: "string_of_nat a = string_of_nat b \<longleftrightarrow> a = b"
  by (metis string_of_nat_read_back)

text \<open>The response and the store of a report generation that succeeds.\<close>

lemma post_generate_report_success:
  "status (fst (post_generate_report e req s)) = 200 \<Longrightarrow>
   \<exists>x d. req = Some x \<and> req_metrics x = Some d
     \<and> body (fst (post_generate_report e req s)) =
         ReportSaved True (''report-'' @ string_of_nat (date_now e))
           \<lparr>input = x, report_id = ''report-'' @ string_of_nat (date_now e),
            report_timestamp = new_date e, aiInsights = generateAIInsights d,
            projections = generateProjections d\<rparr>
     \<and> report_tbl (snd (post_generate_report e req s)) =
         upsert (''report-'' @ string_of_nat (date_now e))
           \<lparr>input = x, report_id = ''report-'' @ string_of_nat (date_now e),
            report_timestamp = new_date e, aiInsights = generateAIInsights d,
            projections = generateProjections d\<rparr> (report_tbl s)"
  by (auto simp add: post_generate_report_def kv_defs json_def json_status_def Let_def
      split: option.splits if_splits)

text \<open>
  Claim C8, as amended: a report generation that succeeds returns, and stores under its id,
  the report made of the input, the id, the timestamp and the insights and projections of
  the input's metrics, the id being \<^verbatim>\<open>report-\<close> followed by the instant read by
  \<^verbatim>\<open>Date.now()\<close>.  So of any two calls that succeed, whatever their inputs, stores and
  timestamps, the ids are equal exactly when the two calls read the same instant; and when
  the two calls have the same input and the same timestamp, their reports agree in every
  field but the id.
\<close>

theorem report_content_and_id:
  "status (fst (post_generate_report e1 req1 s1)) = 200
   \<and> status (fst (post_generate_report e2 req2 s2)) = 200 \<longrightarrow>
   (\<exists>x1 d1 x2 d2 rep1 rep2.
      req1 = Some x1 \<and> req_metrics x1 = Some d1 \<and> req2 = Some x2 \<and> req_metrics x2 = Some d2
      \<and> rep1 = \<lparr>input = x1, report_id = ''report-'' @ string_of_nat (date_now e1),
                 report_timestamp = new_date e1, aiInsights = generateAIInsights d1,
                 projections = generateProjections d1\<rparr>
      \<and> rep2 = \<lparr>input = x2, report_id = ''report-'' @ string_of_nat (date_now e2),
                 report_timestamp = new_date e2, aiInsights = generateAIInsights d2,
                 projections = generateProjections d2\<rparr>
      \<and> body (fst (post_generate_report e1 req1 s1)) = ReportSaved True (report_id rep1) rep1
      \<and> body (fst (post_generate_report e2 req2 s2)) = ReportSaved True (report_id rep2) rep2
      \<and> report_tbl (snd (post_generate_report e1 req1 s1))
           = upsert (report_id rep1) rep1 (report_tbl s1)
      \<and> report_tbl (snd (post_generate_report e2 req2 s2))
           = upsert (report_id rep2) rep2 (report_tbl s2)
      \<and> (report_id rep1 = report_id rep2 \<longleftrightarrow> date_now e1 = date_now e2)
      \<and> (req1 = req2 \<and> new_date e1 = new_date e2 \<longrightarrow>
           rep1\<lparr>report_id := []\<rparr> = rep2\<lparr>report_id := []\<rparr>))"
proof
  assume a: "status (fst (post_generate_report e1 req1 s1)) = 200
   \<and> status (fst (post_generate_report e2 req2 s2)) = 200"
  define id1 where "id1 = ''report-'' @ string_of_nat (date_now e1)"
  define id2 where "id2 = ''report-'' @ string_of_nat (date_now e2)"
  from a obtain x1 d1 where 1: "req1 = Some x1" "req_metrics x1 = Some d1"
     "body (fst (post_generate_report e1 req1 s1)) =
         ReportSaved True id1
           \<lparr>input = x1, report_id = id1,
            report_timestamp = new_date e1, aiInsights = generateAIInsights d1,
            projections = generateProjections d1\<rparr>"
     "report_tbl (snd (post_generate_report e1 req1 s1)) =
         upsert id1
           \<lparr>input = x1, report_id = id1,
            report_timestamp = new_date e1, aiInsights = generateAIInsights d1,
            projections = generateProjections d1\<rparr> (report_tbl s1)"
    unfolding id1_def using post_generate_report_success [of e1 req1 s1] by blast
  from a obtain x2 d2 where 2: "req2 = Some x2" "req_metrics x2 = Some d2"
     "body (fst (post_generate_report e2 req2 s2)) =
         ReportSaved True id2
           \<lparr>input = x2, report_id = id2,
            report_timestamp = new_date e2, aiInsights = generateAIInsights d2,
            projections = generateProjections d2\<rparr>"
     "report_tbl (snd (post_generate_report e2 req2 s2)) =
         upsert id2
           \<lparr>input = x2, report_id = id2,
            report_timestamp = new_date e2, aiInsights = generateAIInsights d2,
            projections = generateProjections d2\<rparr> (report_tbl s2)"
    unfolding id2_def using post_generate_report_success [of e2 req2 s2] by blast
  define rep1 where "rep1 =
     \<lparr>input = x1, report_id = ''report-'' @ string_of_nat (date_now e1),
      report_timestamp = new_date e1, aiInsights = generateAIInsights d1,
      projections = generateProjections d1\<rparr>"
  define rep2 where "rep2 =
     \<lparr>input = x2, report_id = ''report-'' @ string_of_nat (date_now e2),
      report_timestamp = new_date e2, aiInsights = generateAIInsights d2,
      projections = generateProjections d2\<rparr>"
  have i1: "report_id rep1 = id1" and i2: "report_id rep2 = id2"
    by (simp_all add: rep1_def rep2_def id1_def id2_def)
  have r1: "\<lparr>input = x1, report_id = id1,
            report_timestamp = new_date e1, aiInsights = generateAIInsights d1,
            projections = generateProjections d1\<rparr> = rep1"
    by (simp add: rep1_def id1_def)
  have r2: "\<lparr>input = x2, report_id = id2,
            report_timestamp = new_date e2, aiInsights = generateAIInsights d2,
            projections = generateProjections d2\<rparr> = rep2"
    by (simp add: rep2_def id2_def)
  have b1: "body (fst (post_generate_report e1 req1 s1)) = ReportSaved True (report_id rep1) rep1"
    using 1(3) by (simp only: r1 i1)
  have b2: "body (fst (post_generate_report e2 req2 s2)) = ReportSaved True (report_id rep2) rep2"
    using 2(3) by (simp only: r2 i2)
  have t1: "report_tbl (snd (post_generate_report e1 req1 s1))
           = upsert (report_id rep1) rep1 (report_tbl s1)"
    using 1(4) by (simp only: r1 i1)
  have t2: "report_tbl (snd (post_generate_report e2 req2 s2))
           = upsert (report_id rep2) rep2 (report_tbl s2)"
    using 2(4) by (simp only: r2 i2)
  have ids: "report_id rep1 = report_id rep2 \<longleftrightarrow> date_now e1 = date_now e2"
    by (simp add: i1 i2 id1_def id2_def string_of_nat_inj)
  have content: "req1 = req2 \<and> new_date e1 = new_date e2 \<longrightarrow>
           rep1\<lparr>report_id := []\<rparr> = rep2\<lparr>report_id := []\<rparr>"
  proof
    assume h: "req1 = req2 \<and> new_date e1 = new_date e2"
    then have "Some x1 = Some x2" using 1(1) 2(1) by (simp only:)
    then have x: "x1 = x2" by (simp only: option.inject)
    then have "Some d1 = Some d2" using 1(2) 2(2) by (simp only:)
    then have d: "d1 = d2" by (simp only: option.inject)
    show "rep1\<lparr>report_id := []\<rparr> = rep2\<lparr>report_id := []\<rparr>"
      using h by (simp add: rep1_def rep2_def x d)
  qed
  show "\<exists>x1 d1 x2 d2 rep1 rep2.
      req1 = Some x1 \<and> req_metrics x1 = Some d1 \<and> req2 = Some x2 \<and> req_metrics x2 = Some d2
      \<and> rep1 = \<lparr>input = x1, report_id = ''report-'' @ string_of_nat (date_now e1),
                 report_timestamp = new_date e1, aiInsights = generateAIInsights d1,
                 projections = generateProjections d1\<rparr>
      \<and> rep2 = \<lparr>input = x2, report_id = ''report-'' @ string_of_nat (date_now e2),
                 report_timestamp = new_date e2, aiInsights = generateAIInsights d2,
                 projections = generateProjections d2\<rparr>
      \<and> body (fst (post_generate_report e1 req1 s1)) = ReportSaved True (report_id rep1) rep1
      \<and> body (fst (post_generate_report e2 req2 s2)) = ReportSaved True (report_id rep2) rep2
      \<and> report_tbl (snd (post_generate_report e1 req1 s1))
           = upsert (report_id rep1) rep1 (report_tbl s1)
      \<and> report_tbl (snd (post_generate_report e2 req2 s2))
           = upsert (report_id rep2) rep2 (report_tbl s2)
      \<and> (report_id rep1 = report_id rep2 \<longleftrightarrow> date_now e1 = date_now e2)
      \<and> (req1 = req2 \<and> new_date e1 = new_date e2 \<longrightarrow>
           rep1\<lparr>report_id := []\<rparr> = rep2\<lparr>report_id := []\<rparr>)"
    apply (rule exI [of _ x1], rule exI [of _ d1], rule exI [of _ x2], rule exI [of _ d2])
    apply (rule exI [of _ rep1], rule exI [of _ rep2])
    apply (intro conjI)
    apply (fact 1(1) 1(2) 2(1) 2(2) rep1_def rep2_def b1 b2 t1 t2 ids content)+
    done
qed

theorem report_content_and_id_witness:
  "status (fst (post_generate_report \<lparr>throws = (\<lambda>i. False), date_now = 1000, new_date = 1002\<rparr>
      (Some \<lparr>other_fields = (), req_metrics = Some (metrics_of initial_params)\<rparr>)
      empty_store)) = 200
   \<and> status (fst (post_generate_report \<lparr>throws = (\<lambda>i. False), date_now = 1001, new_date = 1002\<rparr>
      (Some \<lparr>other_fields = (), req_metrics = Some (metrics_of initial_params)\<rparr>)
      \<lparr>usage_rec = Some \<lparr>scenarios = 4, reports = 2, lastUpdated = None\<rparr>,
       scenario_tbl = [], report_tbl = []\<rparr>)) = 200
   \<and> new_date \<lparr>throws = (\<lambda>i. False), date_now = 1000, new_date = 1002\<rparr>
       = new_date \<lparr>throws = (\<lambda>i. False), date_now = 1001, new_date = 1002\<rparr>
   \<and> (\<exists>rep1 rep2.
      body (fst (post_generate_report \<lparr>throws = (\<lambda>i. False), date_now = 1000, new_date = 1002\<rparr>
        (Some \<lparr>other_fields = (), req_metrics = Some (metrics_of initial_params)\<rparr>)
        empty_store)) = ReportSaved True (''report-'' @ string_of_nat 1000) rep1
      \<and> body (fst (post_generate_report
        \<lparr>throws = (\<lambda>i. False), date_now = 1001, new_date = 1002\<rparr>
        (Some \<lparr>other_fields = (), req_metrics = Some (metrics_of initial_params)\<rparr>)
        \<lparr>usage_rec = Some \<lparr>scenarios = 4, reports = 2, lastUpdated = None\<rparr>,
         scenario_tbl = [], report_tbl = []\<rparr>))
          = ReportSaved True (''report-'' @ string_of_nat 1001) rep2
      \<and> rep1\<lparr>report_id := []\<rparr> = rep2\<lparr>report_id := []\<rparr>
      \<and> report_id rep1 \<noteq> report_id rep2)"
  using report_content_and_id
    [of "\<lparr>throws = (\<lambda>i. False), date_now = 1000, new_date = 1002\<rparr>"
        "Some \<lparr>other_fields = (), req_metrics = Some (metrics_of initial_params)\<rparr>"
        "empty_store"
        "\<lparr>throws = (\<lambda>i. False), date_now = 1001, new_date = 1002\<rparr>"
        "Some \<lparr>other_fields = (), req_metrics = Some (metrics_of initial_params)\<rparr>"
        "\<lparr>usage_rec = Some \<lparr>scenarios = 4, reports = 2, lastUpdated = None\<rparr>,
          scenario_tbl = [], report_tbl = []\<rparr>"]
  by (simp add: post_generate_report_ok)

text \<open>
  The claim as stated fails in its second half: two report generations that read the same
  instant get the same id, and the second report replaces the first under that key.
\<close>

theorem same_instant_same_report_id_counterexample:
  "body (fst (post_generate_report \<lparr>throws = (\<lambda>i. False), date_now = 1000, new_date = 1000\<rparr>
      (Some \<lparr>other_fields = (1::nat), req_metrics = Some (metrics_of initial_params)\<rparr>)
      empty_store))
     = ReportSaved True ''report-1000''
         \<lparr>input = \<lparr>other_fields = 1, req_metrics = Some (metrics_of initial_params)\<rparr>,
          report_id = ''report-1000'', report_timestamp = 1000,
          aiInsights = generateAIInsights (metrics_of initial_params),
          projections = generateProjections (metrics_of initial_params)\<rparr>
   \<and> body (fst (post_generate_report \<lparr>throws = (\<lambda>i. False), date_now = 1000, new_date = 1000\<rparr>
      (Some \<lparr>other_fields = (2::nat), req_metrics = Some (metrics_of initial_params)\<rparr>)
      (snd (post_generate_report \<lparr>throws = (\<lambda>i. False), date_now = 1000, new_date = 1000\<rparr>
         (Some \<lparr>other_fields = (1::nat), req_metrics = Some (metrics_of initial_params)\<rparr>)
         empty_store))))
     = ReportSaved True ''report-1000''
         \<lparr>input = \<lparr>other_fields = 2, req_metrics = Some (metrics_of initial_params)\<rparr>,
          report_id = ''report-1000'', report_timestamp = 1000,
          aiInsights = generateAIInsights (metrics_of initial_params),
          projections = generateProjections (metrics_of initial_params)\<rparr>
   \<and> map fst (report_tbl
      (snd (post_generate_report \<lparr>throws = (\<lambda>i. False), date_now = 1000, new_date = 1000\<rparr>
        (Some \<lparr>other_fields = (2::nat), req_metrics = Some (metrics_of initial_params)\<rparr>)
        (snd (post_generate_report \<lparr>throws = (\<lambda>i. False), date_now = 1000, new_date = 1000\<rparr>
           (Some \<lparr>other_fields = (1::nat), req_metrics = Some (metrics_of initial_params)\<rparr>)
           empty_store)))))
     = [''report-1000'']"
proof -
  have id: "string_of_nat 1000 = ''1000''"
    by code_simp
  show ?thesis
    by (simp add: post_generate_report_def kv_defs json_def Let_def empty_store_def id)
qed

subsection \<open>Failures\<close>

lemma handle_status:
  "status (fst (handle e req s)) =
     (if (\<exists>i<store_calls req. throws e i) \<or> malformed req then 500 else 200)"
proof (cases req)
  case GetHealth
  then show ?thesis by (simp add: get_health_def json_def)
next
  case GetUsage
  then show ?thesis by (simp add: get_usage_def kv_defs json_def json_status_def)
next
  case (PostUsage b)
  then show ?thesis
    by (cases b) (simp_all add: post_usage_def kv_defs json_def json_status_def)
next
  case (PostScenario b)
  then show ?thesis
    by (cases b)
       (simp_all add: post_scenario_def kv_defs json_def json_status_def Let_def
          numeral_3_eq_3 numeral_2_eq_2 Ex_less_Suc)
next
  case GetScenarios
  then show ?thesis by (simp add: get_scenarios_def kv_defs json_def json_status_def)
next
  case (PostGenerateReport b)
  show ?thesis
  proof (cases b)
    case None
    with PostGenerateReport show ?thesis
      by (simp add: post_generate_report_def json_status_def)
  next
    case (Some x)
    with PostGenerateReport show ?thesis
      by (cases "req_metrics x")
         (simp_all add: post_generate_report_def kv_defs json_def json_status_def Let_def
            numeral_3_eq_3 numeral_2_eq_2 Ex_less_Suc)
  qed
qed

lemma handle_error_body:
  assumes "status (fst (handle e req s)) = 500"
  shows "fallback_body (body (fst (handle e req s)))"
proof (cases req)
  case GetHealth
  with assms show ?thesis by (simp add: get_health_def json_def)
next
  case GetUsage
  with assms show ?thesis
    by (simp add: get_usage_def kv_defs json_def json_status_def split: if_splits)
next
  case (PostUsage b)
  with assms show ?thesis
    by (cases b)
       (simp_all add: post_usage_def kv_defs json_def json_status_def split: if_splits)
next
  case (PostScenario b)
  with assms show ?thesis
    by (cases b)
       (simp_all add: post_scenario_def kv_defs json_def json_status_def Let_def
          split: if_splits)
next
  case GetScenarios
  with assms show ?thesis
    by (simp add: get_scenarios_def kv_defs json_def json_status_def split: if_splits)
next
  case (PostGenerateReport b)
  with assms show ?thesis
    by (cases b)
       (simp_all add: post_generate_report_def kv_defs json_def json_status_def Let_def
          split: option.splits if_splits)
qed

lemma handle_error_store:
  assumes "status (fst (handle e req s)) = 500"
  shows "usage_rec (snd (handle e req s)) = usage_rec s
   \<and> (throws e 0 \<or> malformed req \<or> store_calls req \<le> 1 \<longrightarrow> snd (handle e req s) = s)"
proof (cases req)
  case GetHealth
  then show ?thesis by (simp add: get_health_def)
next
  case GetUsage
  then show ?thesis by (simp add: reads_keep_store)
next
  case (PostUsage b)
  with assms show ?thesis
    by (cases b)
       (simp_all add: post_usage_def kv_defs json_def json_status_def split: if_splits)
next
  case (PostScenario b)
  with assms show ?thesis
    by (cases b)
       (simp_all add: post_scenario_def kv_defs json_def json_status_def Let_def
          split: if_splits)
next
  case GetScenarios
  then show ?thesis by (simp add: reads_keep_store)
next
  case (PostGenerateReport b)
  with assms show ?thesis
    by (cases b)
       (simp_all add: post_generate_report_def kv_defs json_def json_status_def Let_def
          split: option.splits if_splits)
qed

text \<open>
  Claim C9, as amended: a handler answers 500 exactly when one of its store calls throws or
  its request body cannot be used, and 200 otherwise, so no other status is produced; a
  500 response carries the default counters, the empty scenario list or an error string.
  An error response leaves the usage record as it was, and the whole store as it was when
  the failure precedes the first write; the snapshot that \<^verbatim>\<open>POST /scenario\<close> has written
  stays in the store whatever happens to the counter update after it.
\<close>

theorem failures_answered_with_500:
  "status (fst (handle e req s)) =
     (if (\<exists>i<store_calls req. throws e i) \<or> malformed req then 500 else 200)
   \<and> (status (fst (handle e req s)) = 500 \<longrightarrow>
        fallback_body (body (fst (handle e req s)))
        \<and> usage_rec (snd (handle e req s)) = usage_rec s
        \<and> (throws e 0 \<or> malformed req \<or> store_calls req \<le> 1 \<longrightarrow> snd (handle e req s) = s))
   \<and> (\<not> throws e' 0 \<longrightarrow>
        scenario_tbl (snd (handle e' (PostScenario (Some x)) s)) =
          upsert (''scenario-'' @ string_of_nat (date_now e'))
            \<lparr>payload = x, timestamp = new_date e'\<rparr> (scenario_tbl s))"
proof -
  have "scenario_tbl (snd (handle e' (PostScenario (Some x)) s)) =
          upsert (''scenario-'' @ string_of_nat (date_now e'))
            \<lparr>payload = x, timestamp = new_date e'\<rparr> (scenario_tbl s)"
    if "\<not> throws e' 0"
    using that by (simp add: post_scenario_def kv_defs Let_def)
  then show ?thesis
    using handle_status [of e req s] handle_error_body [of e req s]
      handle_error_store [of e req s]
    by blast
qed

theorem failures_answered_with_500_witness:
  "(\<exists>i<store_calls (GetUsage :: unit request).
       throws \<lparr>throws = (\<lambda>i. i = 0), date_now = 1000, new_date = 1001\<rparr> i)
   \<and> throws \<lparr>throws = (\<lambda>i. i = 0), date_now = 1000, new_date = 1001\<rparr> 0
   \<and> \<not> throws \<lparr>throws = (\<lambda>i. i = 2), date_now = 1000, new_date = 1001\<rparr> 0
   \<and> handle \<lparr>throws = (\<lambda>i. i = 0), date_now = 1000, new_date = 1001\<rparr> GetUsage
        \<lparr>usage_rec = Some \<lparr>scenarios = 4, reports = 2, lastUpdated = Some 7\<rparr>,
         scenario_tbl = [], report_tbl = ([] :: (string \<times> unit report) list)\<rparr>
      = (\<lparr>status = 500, body = UsageData \<lparr>scenarios = 0, reports = 0, lastUpdated = None\<rparr>\<rparr>,
         \<lparr>usage_rec = Some \<lparr>scenarios = 4, reports = 2, lastUpdated = Some 7\<rparr>,
          scenario_tbl = [], report_tbl = []\<rparr>)
   \<and> scenario_tbl (snd (handle \<lparr>throws = (\<lambda>i. i = 2), date_now = 1000, new_date = 1001\<rparr>
        (PostScenario (Some ()))
        \<lparr>usage_rec = Some \<lparr>scenarios = 4, reports = 2, lastUpdated = Some 7\<rparr>,
         scenario_tbl = [], report_tbl = ([] :: (string \<times> unit report) list)\<rparr>))
      = [(''scenario-'' @ string_of_nat 1000, \<lparr>payload = (), timestamp = 1001\<rparr>)]"
  using failures_answered_with_500
    [of "\<lparr>throws = (\<lambda>i. i = 0), date_now = 1000, new_date = 1001\<rparr>" "GetUsage :: unit request"
        "\<lparr>usage_rec = Some \<lparr>scenarios = 4, reports = 2, lastUpdated = Some 7\<rparr>,
          scenario_tbl = [], report_tbl = ([] :: (string \<times> unit report) list)\<rparr>"
        "\<lparr>throws = (\<lambda>i. i = 2), date_now = 1000, new_date = 1001\<rparr>" "()"]
  by (simp add: get_usage_def kv_defs json_status_def default_usage_def)

text \<open>
  The last part of the claim as stated fails: when the snapshot of \<^verbatim>\<open>POST /scenario\<close>
  has been written and the read of the counters throws, the response is the error, and
  the snapshot stays in the store.
\<close>

theorem error_after_write_counterexample:
  "fst (handle \<lparr>throws = (\<lambda>i. i = 1), date_now = 1000, new_date = 1001\<rparr>
        (PostScenario (Some ())) empty_store)
     = \<lparr>status = 500, body = Error ''Failed to save scenario''\<rparr>
   \<and> scenario_tbl (snd (handle \<lparr>throws = (\<lambda>i. i = 1), date_now = 1000, new_date = 1001\<rparr>
        (PostScenario (Some ())) empty_store))
     = [(''scenario-1000'', \<lparr>payload = (), timestamp = 1001\<rparr>)]
   \<and> scenario_tbl (empty_store :: unit store) = []"
proof -
  have id: "string_of_nat 1000 = ''1000''"
    by code_simp
  show ?thesis
    by (simp add: post_scenario_def kv_defs json_status_def Let_def empty_store_def id)
qed

end
